theory Spec2Isabelle
  imports Main
begin

section \<open>Text primitives of the Python runtime\<close>

text \<open>
  A Python \<open>str\<close> is a sequence of code points. The model uses \<^typ>\<open>string\<close>, one
  \<^typ>\<open>char\<close> per code point, and so covers the code points below 256; every character
  the program tests for (its delimiters, keywords, quotes and digits) lies in that range.
\<close>

definition isspace :: "char \<Rightarrow> bool" where
  \<comment> \<open>the whitespace of \<open>str.split()\<close>, \<open>str.strip()\<close> and of \<open>\s\<close> in a \<open>str\<close> pattern\<close>
  "isspace c = (c \<in> set [CHR 0x09, CHR 0x0A, CHR 0x0B, CHR 0x0C, CHR 0x0D,
                         CHR 0x1C, CHR 0x1D, CHR 0x1E, CHR 0x1F, CHR 0x20,
                         CHR 0x85, CHR 0xA0])"

definition isdigit :: "char \<Rightarrow> bool" where
  \<comment> \<open>\<open>\d\<close> in a \<open>str\<close> pattern: the decimal digits\<close>
  "isdigit c = (c \<in> set ''0123456789'')"

definition py_lower_char :: "char \<Rightarrow> char" where
  "py_lower_char c =
     (let n = (of_char c :: nat)
      in if (65 \<le> n \<and> n \<le> 90) \<or> (192 \<le> n \<and> n \<le> 214) \<or> (216 \<le> n \<and> n \<le> 222)
         then char_of (n + 32) else c)"

definition py_lower :: "string \<Rightarrow> string" where
  "py_lower s = map py_lower_char s"

definition py_strip :: "string \<Rightarrow> string" where
  \<comment> \<open>\<open>s.strip()\<close>\<close>
  "py_strip s = rev (dropWhile isspace (rev (dropWhile isspace s)))"

definition py_strip_chars :: "string \<Rightarrow> string \<Rightarrow> string" where
  \<comment> \<open>\<open>s.strip(chars)\<close>\<close>
  "py_strip_chars chars s =
     rev (dropWhile (\<lambda>c. c \<in> set chars) (rev (dropWhile (\<lambda>c. c \<in> set chars) s)))"

definition startswith :: "string \<Rightarrow> string \<Rightarrow> bool" where
  "startswith s p = (take (length p) s = p)"

definition endswith :: "string \<Rightarrow> string \<Rightarrow> bool" where
  "endswith s p = (length p \<le> length s \<and> drop (length s - length p) s = p)"

fun py_in :: "string \<Rightarrow> string \<Rightarrow> bool" where
  \<comment> \<open>\<open>sub in s\<close>\<close>
  "py_in sub [] = (sub = [])"
| "py_in sub (c # cs) = (startswith (c # cs) sub \<or> py_in sub cs)"

function split_ws :: "string \<Rightarrow> string list" where
  \<comment> \<open>\<open>s.split()\<close>: the maximal runs of non-whitespace\<close>
  "split_ws [] = []"
| "split_ws (c # cs) =
     (if isspace c then split_ws cs
      else (c # takeWhile (\<lambda>x. \<not> isspace x) cs)
           # split_ws (dropWhile (\<lambda>x. \<not> isspace x) cs))"
  by pat_completeness auto
termination
  by (relation "measure length") (auto simp: length_dropWhile_le less_Suc_eq_le)

function py_split_from :: "string \<Rightarrow> string \<Rightarrow> string \<Rightarrow> string list" where
  \<comment> \<open>\<open>s.split(sep)\<close> for a non-empty separator, \<open>acc\<close> holding the current piece reversed\<close>
  "py_split_from sep acc [] = [rev acc]"
| "py_split_from sep acc (c # cs) =
     (if sep \<noteq> [] \<and> startswith (c # cs) sep
      then rev acc # py_split_from sep [] (drop (length sep) (c # cs))
      else py_split_from sep (c # acc) cs)"
  by pat_completeness auto
termination
  by (relation "measure (\<lambda>(sep, acc, s). length s)") auto

definition py_split :: "string \<Rightarrow> string \<Rightarrow> string list" where
  "py_split sep s = py_split_from sep [] s"

fun py_join :: "string \<Rightarrow> string list \<Rightarrow> string" where
  \<comment> \<open>\<open>sep.join(xs)\<close>\<close>
  "py_join sep [] = []"
| "py_join sep [x] = x"
| "py_join sep (x # y # xs) = x @ sep @ py_join sep (y # xs)"

definition py_slice_to :: "'a list \<Rightarrow> int \<Rightarrow> 'a list" where
  \<comment> \<open>\<open>xs[:n]\<close>; a negative bound counts from the end\<close>
  "py_slice_to xs n = (if 0 \<le> n then take (nat n) xs else take (length xs - nat (- n)) xs)"

section \<open>Script writer (script\_writer.py)\<close>

datatype provider = OpenAI | Anthropic

datatype gen_error =
    NoApiKey          \<comment> \<open>\<open>ValueError("No AI API key configured...")\<close>\<close>
  | ProviderFailure   \<comment> \<open>\<open>ValueError("Failed to generate scripts...")\<close>\<close>

record candidate =
  script :: string
  word_count :: int

definition is_meta_line :: "string \<Rightarrow> bool" where
  "is_meta_line l =
     (startswith l ''Here'' \<or> startswith l ''Note:'' \<or> startswith l ''Script:''
      \<or> startswith l ''Remember'')"

definition clean_lines :: "string \<Rightarrow> string" where
  \<comment> \<open>\<open>_clean_script\<close> up to the word limit: quotes stripped, meta lines dropped, one line\<close>
  "clean_lines txt =
     py_join '' ''
       (filter (\<lambda>l. l \<noteq> [] \<and> \<not> is_meta_line l)
          (map py_strip (py_split [CHR 0x0A] (py_strip_chars [CHR 0x22, CHR 0x27] txt))))"

definition limit_words :: "string \<Rightarrow> string" where
  \<comment> \<open>\<open>_clean_script\<close>, the word limit\<close>
  "limit_words s =
     (let ws = split_ws s
      in if 55 < length ws then py_join '' '' (take 50 ws) @ ''...'' else s)"

definition clean_script :: "string \<Rightarrow> string" where
  "clean_script txt = limit_words (clean_lines txt)"

definition marker_match :: "string \<Rightarrow> string option" where
  \<comment> \<open>the pattern \<open>SCRIPT\s+\d+:\<close> with IGNORECASE, matched at the start of the text;
      the result is the text after the match\<close>
  "marker_match s =
     (if py_lower (take 6 s) = ''script'' then
        (let r1 = drop 6 s;
             r2 = dropWhile isspace r1;
             r3 = dropWhile isdigit r2
         in if takeWhile isspace r1 \<noteq> [] \<and> takeWhile isdigit r2 \<noteq> [] \<and> startswith r3 '':''
            then Some (drop 1 r3) else None)
      else None)"

function re_split_from :: "string \<Rightarrow> string \<Rightarrow> string list" where
  \<comment> \<open>\<open>re.split\<close> on the marker pattern, \<open>acc\<close> holding the current piece reversed\<close>
  "re_split_from acc [] = [rev acc]"
| "re_split_from acc (c # cs) =
     (case marker_match (c # cs) of
        Some rest \<Rightarrow> rev acc # re_split_from [] rest
      | None \<Rightarrow> re_split_from (c # acc) cs)"
  by pat_completeness auto
termination
proof (relation "measure (\<lambda>(acc, s). length s)")
  show "wf (measure (\<lambda>(acc, s). length s))" by simp
next
  fix acc :: string and c cs rest
  assume m: "marker_match (c # cs) = Some rest"
  define r1 where "r1 = drop 6 (c # cs)"
  define r2 where "r2 = dropWhile isspace r1"
  define r3 where "r3 = dropWhile isdigit r2"
  from m have rest: "rest = drop 1 r3" and colon: "startswith r3 '':''"
    by (auto simp: marker_match_def Let_def r1_def r2_def r3_def split: if_splits)
  from colon have "r3 \<noteq> []" by (auto simp: startswith_def)
  then have "length rest < length r3" by (simp add: rest)
  moreover have "length r3 \<le> length r2" by (simp add: r3_def length_dropWhile_le)
  moreover have "length r2 \<le> length r1" by (simp add: r2_def length_dropWhile_le)
  moreover have "length r1 \<le> length (c # cs)" by (simp add: r1_def)
  ultimately show "(([], rest), (acc, c # cs)) \<in> measure (\<lambda>(acc, s). length s)" by simp
next
  fix acc :: string and c cs
  show "((c # acc, cs), (acc, c # cs)) \<in> measure (\<lambda>(acc, s). length s)" by simp
qed

definition re_split_markers :: "string \<Rightarrow> string list" where
  "re_split_markers s = re_split_from [] s"

definition nonblank_stripped :: "string list \<Rightarrow> string list" where
  \<comment> \<open>\<open>[p.strip() for p in parts if p.strip()]\<close>\<close>
  "nonblank_stripped ps = filter (\<lambda>p. p \<noteq> []) (map py_strip ps)"

definition split_parts :: "string \<Rightarrow> int \<Rightarrow> string list" where
  \<comment> \<open>the segments: by markers, or by blank lines when the markers give too few\<close>
  "split_parts scripts_text expected_count =
     (let parts = nonblank_stripped (re_split_markers scripts_text)
      in if int (length parts) < expected_count
         then nonblank_stripped (py_split [CHR 0x0A, CHR 0x0A] scripts_text)
         else parts)"

definition parsed_candidate :: "string \<Rightarrow> candidate" where
  "parsed_candidate script_text =
     (let s = clean_script script_text
      in \<lparr>script = s, word_count = int (length (split_ws s))\<rparr>)"

definition fallback_candidate :: "string list \<Rightarrow> candidate" where
  "fallback_candidate parts =
     \<lparr>script = ''Check out ''
                @ (case parts of [] \<Rightarrow> ''this amazing offer'' | p # _ \<Rightarrow> take 50 p)
                @ ''... Click to learn more!'',
      word_count = 10\<rparr>"

function pad_scripts :: "candidate \<Rightarrow> int \<Rightarrow> candidate list \<Rightarrow> candidate list" where
  \<comment> \<open>\<open>while len(scripts) < expected_count: scripts.append(fallback)\<close>\<close>
  "pad_scripts fb expected_count scripts =
     (if int (length scripts) < expected_count
      then pad_scripts fb expected_count (scripts @ [fb])
      else scripts)"
  by pat_completeness auto
termination
  by (relation "measure (\<lambda>(fb, n, scripts). nat (n - int (length scripts)))") auto

definition parse_multiple_scripts :: "string \<Rightarrow> int \<Rightarrow> candidate list" where
  "parse_multiple_scripts scripts_text expected_count =
     (let parts = split_parts scripts_text expected_count
      in pad_scripts (fallback_candidate parts) expected_count
           (map parsed_candidate (py_slice_to parts expected_count)))"

definition generate_pitch_scripts ::
  "provider option \<Rightarrow> gen_error + string \<Rightarrow> int \<Rightarrow> gen_error + candidate list" where
  \<comment> \<open>\<open>reply\<close> is the outcome of the single provider call: the text of the reply, or
      the error the call raised; the provider helpers strip the text before parsing\<close>
  "generate_pitch_scripts prov reply num_options =
     (case prov of
        None \<Rightarrow> Inl NoApiKey
      | Some p \<Rightarrow>
          (case reply of
             Inl e \<Rightarrow> Inl e
           | Inr content \<Rightarrow> Inr (parse_multiple_scripts (py_strip content) num_options)))"

section \<open>Content extractor (scraper\_enhanced.py)\<close>

text \<open>
  Fetching a URL and parsing the HTML are done by libraries outside the repository. The
  model takes their outcome as an argument \<open>fetched\<close>: the error that
  \<open>requests.get\<close> or \<open>raise_for_status\<close> raised, or the parsed page as far as
  the extractor reads it.
\<close>

datatype fetch_error =
    Timeout
  | ConnectionFailure
  | HTTPStatusError nat

datatype meta_tag = MetaTag (content_attr: "string option")

record page =
  title_tag :: "string option"              \<comment> \<open>text of the first \<open>title\<close> element\<close>
  meta_name_description :: "meta_tag option"  \<comment> \<open>first \<open>meta\<close> named \<open>description\<close>\<close>
  meta_og_description :: "meta_tag option"    \<comment> \<open>first \<open>meta\<close> with property \<open>og:description\<close>\<close>
  body_text :: string  \<comment> \<open>\<open>get_text()\<close> once script, style, nav, header, footer are removed\<close>

record content =
  title :: "string option"
  meta_description :: "string option"
  preview_text :: "string option"
  full_content :: "string option"

datatype link_type = Course | Coaching | Product | Newsletter | Blog | Video | Social | Website

fun link_type_name :: "link_type \<Rightarrow> string" where
  "link_type_name Course = ''course''"
| "link_type_name Coaching = ''coaching''"
| "link_type_name Product = ''product''"
| "link_type_name Newsletter = ''newsletter''"
| "link_type_name Blog = ''blog''"
| "link_type_name Video = ''video''"
| "link_type_name Social = ''social''"
| "link_type_name Website = ''website''"

record extracted = content +
  link_type :: link_type
  context_summary :: string

definition truthy :: "string option \<Rightarrow> bool" where
  \<comment> \<open>Python's truth value of an optional string: neither \<open>None\<close> nor empty\<close>
  "truthy v = (case v of None \<Rightarrow> False | Some s \<Rightarrow> s \<noteq> [])"

definition or_empty :: "string option \<Rightarrow> string" where
  \<comment> \<open>\<open>v or ''\<close>\<close>
  "or_empty v = (case v of None \<Rightarrow> [] | Some s \<Rightarrow> s)"

definition is_linebreak :: "char \<Rightarrow> bool" where
  "is_linebreak c =
     (c \<in> set [CHR 0x0A, CHR 0x0B, CHR 0x0C, CHR 0x0D, CHR 0x1C, CHR 0x1D, CHR 0x1E, CHR 0x85])"

function splitlines_from :: "string \<Rightarrow> string \<Rightarrow> string list" where
  \<comment> \<open>\<open>s.splitlines()\<close>, \<open>acc\<close> holding the current line reversed; CR LF is one break\<close>
  "splitlines_from acc [] = (if acc = [] then [] else [rev acc])"
| "splitlines_from acc (c # cs) =
     (if is_linebreak c
      then rev acc # splitlines_from []
             (if c = CHR 0x0D \<and> startswith cs [CHR 0x0A] then drop 1 cs else cs)
      else splitlines_from (c # acc) cs)"
  by pat_completeness auto
termination
  by (relation "measure (\<lambda>(acc, s). length s)") auto

definition py_splitlines :: "string \<Rightarrow> string list" where
  "py_splitlines s = splitlines_from [] s"

definition normalize_text :: "string \<Rightarrow> string" where
  \<comment> \<open>lines stripped, split at double spaces, chunks stripped, non-empty ones joined\<close>
  "normalize_text text =
     py_join '' ''
       (filter (\<lambda>chunk. chunk \<noteq> [])
          (concat (map (\<lambda>line. map py_strip (py_split ''  '' line))
                       (map py_strip (py_splitlines text)))))"

definition preview_of :: "string \<Rightarrow> string" where
  \<comment> \<open>the first 200 words of the normalized text\<close>
  "preview_of text =
     (let ws = split_ws text
      in if 200 < length ws then py_join '' '' (take 200 ws) @ ''...'' else text)"

definition empty_content :: content where
  "empty_content =
     \<lparr>title = None, meta_description = None, preview_text = None, full_content = None\<rparr>"

definition scrape_page_content :: "fetch_error + page \<Rightarrow> content" where
  "scrape_page_content fetched =
     (case fetched of
        Inl e \<Rightarrow> empty_content
      | Inr pg \<Rightarrow>
          (let meta_desc = (case meta_name_description pg of
                              Some t \<Rightarrow> Some t
                            | None \<Rightarrow> meta_og_description pg);
               text = normalize_text (body_text pg)
           in \<lparr>title = map_option py_strip (title_tag pg),
               meta_description =
                 map_option (\<lambda>t. py_strip (or_empty (content_attr t))) meta_desc,
               preview_text = Some (preview_of text),
               full_content = Some text\<rparr>))"

definition combined_text :: "string \<Rightarrow> 'a content_scheme \<Rightarrow> string" where
  "combined_text url c =
     py_lower url @ '' '' @ py_lower (or_empty (title c)) @ '' ''
       @ py_lower (or_empty (meta_description c)) @ '' ''
       @ py_lower (or_empty (preview_text c))"

definition any_in :: "string list \<Rightarrow> string \<Rightarrow> bool" where
  \<comment> \<open>\<open>any(word in s for word in words)\<close>\<close>
  "any_in words s = list_ex (\<lambda>w. py_in w s) words"

definition identify_link_type :: "string \<Rightarrow> 'a content_scheme \<Rightarrow> link_type" where
  "identify_link_type url c =
     (let url_lower = py_lower url; combined = combined_text url c
      in if any_in [''course'', ''learn'', ''lesson'', ''module'', ''curriculum'', ''training'']
              combined then Course
         else if any_in [''coaching'', ''mentorship'', ''1-on-1'', ''one-on-one'',
                         ''consultation''] combined then Coaching
         else if any_in [''product'', ''buy'', ''shop'', ''store'', ''purchase'', ''price'',
                         ''$'', ''cart''] combined then Product
         else if any_in [''newsletter'', ''subscribe'', ''email list'', ''weekly digest'']
                   combined then Newsletter
         else if any_in [''blog'', ''article'', ''post'', ''read''] combined then Blog
         else if py_in ''youtube.com'' url_lower \<or> py_in ''vimeo.com'' url_lower
                 \<or> py_in ''video'' combined then Video
         else if any_in [''instagram'', ''twitter'', ''facebook'', ''linkedin'', ''tiktok'',
                         ''youtube''] url_lower then Social
         else Website)"

definition create_context_summary :: "'a content_scheme \<Rightarrow> link_type \<Rightarrow> string" where
  "create_context_summary c lt =
     py_join [CHR 0x0A]
       ((if truthy (title c) then [''Title: '' @ or_empty (title c)] else [])
        @ (if truthy (meta_description c)
           then [''Description: '' @ or_empty (meta_description c)] else [])
        @ [''Link Type: '' @ link_type_name lt]
        @ (if truthy (preview_text c)
           then [''Preview: ''
                 @ py_join '' '' (take 100 (split_ws (or_empty (preview_text c))))]
           else []))"

definition scrape_link_content :: "string \<Rightarrow> fetch_error + page \<Rightarrow> extracted" where
  "scrape_link_content url fetched =
     (let c = scrape_page_content fetched;
          lt = identify_link_type url c
      in content.extend c
           (extracted.fields lt (create_context_summary c lt)))"

text \<open>
  The spec's words for the classification, to compare the code with: the rules are
  tried in the declared order, the first one that matches decides, and \<open>website\<close> is
  the answer when none does.
\<close>

fun first_match :: "(link_type \<times> bool) list \<Rightarrow> link_type" where
  "first_match [] = Website"
| "first_match ((t, hit) # rules) = (if hit then t else first_match rules)"

definition priority_rules :: "string \<Rightarrow> 'a content_scheme \<Rightarrow> (link_type \<times> bool) list" where
  "priority_rules url c =
     [(Course, any_in [''course'', ''learn'', ''lesson'', ''module'', ''curriculum'',
                       ''training''] (combined_text url c)),
      (Coaching, any_in [''coaching'', ''mentorship'', ''1-on-1'', ''one-on-one'',
                         ''consultation''] (combined_text url c)),
      (Product, any_in [''product'', ''buy'', ''shop'', ''store'', ''purchase'', ''price'',
                        ''$'', ''cart''] (combined_text url c)),
      (Newsletter, any_in [''newsletter'', ''subscribe'', ''email list'', ''weekly digest'']
                     (combined_text url c)),
      (Blog, any_in [''blog'', ''article'', ''post'', ''read''] (combined_text url c)),
      (Video, py_in ''youtube.com'' (py_lower url) \<or> py_in ''vimeo.com'' (py_lower url)
              \<or> py_in ''video'' (combined_text url c)),
      (Social, any_in [''instagram'', ''twitter'', ''facebook'', ''linkedin'', ''tiktok'',
                       ''youtube''] (py_lower url))]"

section \<open>Voice synthesis and the link handlers (voice\_clone.py, app.py)\<close>

text \<open>
  Modelled from the spec: the table classes \<open>Link\<close> and \<open>User\<close>, whose declaring
  module is not among the sources. The spec keeps the selected script on the link as
  \<open>selected_script\<close> / \<open>voice_message_text\<close>, the audio artifact as
  \<open>voice_message_audio\<close> and the voice identity on the owner. The records hold these
  columns under the names the handlers use; each is a nullable text column, as the
  migration scripts add them.
\<close>

record link =
  user_id :: int
  script_brief :: "string option"
  script_standard :: "string option"
  script_conversational :: "string option"
  selected_script :: "string option"
  voice_message_text :: "string option"
  voice_message_audio :: "string option"

record user =
  voice_clone_id :: "string option"

text \<open>
  The state the handlers work on: the two tables, and the artifact store as a map from
  a path below the audio directory to the bytes of the file.
\<close>

record state =
  links :: "int \<rightharpoonup> link"
  users :: "int \<rightharpoonup> user"
  files :: "string \<rightharpoonup> string"

datatype api_error =
    HTTPException nat string   \<comment> \<open>status code and detail\<close>
  | TypeError                  \<comment> \<open>an uncaught \<open>TypeError\<close>, answered with status 500\<close>

datatype select_response = Selected int string   \<comment> \<open>\<open>link_id\<close> and \<open>selected_script\<close>\<close>

definition select_script_for_link ::
  "int \<Rightarrow> (string \<rightharpoonup> string) \<Rightarrow> state \<Rightarrow> state \<times> (api_error + select_response)" where
  "select_script_for_link link_id request db =
     (case links db link_id of
        None \<Rightarrow> (db, Inl (HTTPException 404 ''Link not found''))
      | Some l \<Rightarrow>
          (let script_type = request ''script_type'';
               custom_text = request ''custom_text'';
               script_arg = request ''script''
           in if \<not> truthy script_type \<and> \<not> truthy custom_text \<and> \<not> truthy script_arg
              then (db, Inl (HTTPException 400
                      ''Either script_type, custom_text, or script is required''))
              else
                (case (if truthy script_arg then Some script_arg
                       else if truthy custom_text then Some custom_text
                       else if script_type = Some ''brief'' then Some (script_brief l)
                       else if script_type = Some ''standard'' then Some (script_standard l)
                       else if script_type = Some ''conversational''
                         then Some (script_conversational l)
                       else None) of
                   None \<Rightarrow> (db, Inl (HTTPException 400 ''Invalid script_type''))
                 | Some chosen \<Rightarrow>
                     (let db' = db\<lparr>links := (links db)(link_id \<mapsto>
                                   l\<lparr>selected_script := chosen,
                                     voice_message_text := chosen\<rparr>)\<rparr>
                      in \<comment> \<open>after the commit, \<open>len(link.selected_script)\<close> is logged\<close>
                         (case chosen of
                            None \<Rightarrow> (db', Inl TypeError)
                          | Some text \<Rightarrow> (db', Inr (Selected link_id text)))))))"

datatype tts_outcome =
    RequestRaises               \<comment> \<open>\<open>requests.post\<close> raised\<close>
  | Reply nat "string list"     \<comment> \<open>status code and the chunks of the body\<close>
  | StreamRaises "string list"  \<comment> \<open>status 200, then an error after these chunks\<close>

record env =
  elevenlabs_api_key :: bool     \<comment> \<open>\<open>ELEVENLABS_API_KEY\<close> is set\<close>
  now_timestamp :: string        \<comment> \<open>\<open>datetime.now().timestamp()\<close> as printed\<close>
  tts :: tts_outcome             \<comment> \<open>what the speech provider does with the request\<close>
  unlink_fails :: bool           \<comment> \<open>deleting the old file raises\<close>

definition generate_audio ::
  "tts_outcome \<Rightarrow> string \<Rightarrow> (string \<rightharpoonup> string) \<Rightarrow> (string \<rightharpoonup> string) \<times> bool" where
  "generate_audio outcome output_path fs =
     (case outcome of
        RequestRaises \<Rightarrow> (fs, False)
      | Reply status chunks \<Rightarrow>
          if status = 200
          then (fs(output_path \<mapsto> concat (filter (\<lambda>chunk. chunk \<noteq> []) chunks)), True)
          else (fs, False)
      | StreamRaises chunks \<Rightarrow>
          (fs(output_path \<mapsto> concat (filter (\<lambda>chunk. chunk \<noteq> []) chunks)), False))"

definition generate_voice_audio ::
  "env \<Rightarrow> string \<Rightarrow> (string \<rightharpoonup> string) \<Rightarrow> (string \<rightharpoonup> string) \<times> bool" where
  "generate_voice_audio e output_path fs =
     (if \<not> elevenlabs_api_key e then (fs, False)
      else generate_audio (tts e) output_path fs)"

fun show_nat :: "nat \<Rightarrow> string" where
  "show_nat n =
     (if n < 10 then [''0123456789'' ! n]
      else show_nat (n div 10) @ [''0123456789'' ! (n mod 10)])"

declare show_nat.simps [simp del]

definition show_int :: "int \<Rightarrow> string" where
  "show_int i = (if i < 0 then ''-'' @ show_nat (nat (- i)) else show_nat (nat i))"

definition audio_filename :: "int \<Rightarrow> string \<Rightarrow> string" where
  "audio_filename link_id ts = ''link_'' @ show_int link_id @ ''_'' @ ts @ ''.mp3''"

definition delete_old_audio ::
  "env \<Rightarrow> string option \<Rightarrow> (string \<rightharpoonup> string) \<Rightarrow> (string \<rightharpoonup> string)" where
  \<comment> \<open>the old file is unlinked when the link names one and it exists; an error is logged\<close>
  "delete_old_audio e old fs =
     (case old of
        None \<Rightarrow> fs
      | Some p \<Rightarrow> if p \<noteq> [] \<and> fs p \<noteq> None \<and> \<not> unlink_fails e then fs(p := None) else fs)"

definition generate_audio_for_link ::
  "env \<Rightarrow> int \<Rightarrow> state \<Rightarrow> state \<times> (api_error + string)" where
  "generate_audio_for_link e link_id db =
     (if \<not> elevenlabs_api_key e
      then (db, Inl (HTTPException 500
              ''Audio generation is not configured. Please set ELEVENLABS_API_KEY environment variable.''))
      else case links db link_id of
        None \<Rightarrow> (db, Inl (HTTPException 404 ''Link not found''))
      | Some l \<Rightarrow>
         (case users db (user_id l) of
            None \<Rightarrow> (db, Inl (HTTPException 404 ''User not found''))
          | Some u \<Rightarrow>
              if \<not> truthy (voice_clone_id u)
              then (db, Inl (HTTPException 400
                      ''Voice clone not set up. Please create a voice clone first by recording your voice.''))
              else if \<not> truthy (voice_message_text l)
              then (db, Inl (HTTPException 400
                      ''No script selected for this link. Please select a script first.''))
              else
                (let text = or_empty (voice_message_text l)
                 in if py_strip text = []
                    then (db, Inl (HTTPException 400 ''Script text is empty''))
                    else
                      (let audio_path = ''link_voices/''
                                        @ audio_filename link_id (now_timestamp e);
                           (fs1, success) = generate_voice_audio e audio_path (files db)
                       in if \<not> success
                          then (db\<lparr>files := fs1\<rparr>,
                                Inl (HTTPException 500
                                  ''Failed to generate audio. Please check your voice clone and try again.''))
                          else if fs1 audio_path = None
                          then (db\<lparr>files := fs1\<rparr>,
                                Inl (HTTPException 500 ''Audio file was not created''))
                          else
                            (db\<lparr>links := (links db)(link_id \<mapsto>
                                   l\<lparr>voice_message_audio := Some audio_path,
                                     voice_message_text := Some text\<rparr>),
                                files := delete_old_audio e (voice_message_audio l) fs1\<rparr>,
                             Inr audio_path)))))"

definition generate_audio_for_link_steps :: "env \<Rightarrow> int \<Rightarrow> state \<Rightarrow> state list" where
  \<comment> \<open>the states \<open>generate_audio_for_link\<close> passes through, in program order: after
      the new file is written, after the old file is unlinked, and after the new path and
      text are assigned and committed; none when the request is refused before the
      synthesis, only the first when the synthesis fails\<close>
  "generate_audio_for_link_steps e link_id db =
     (if \<not> elevenlabs_api_key e then []
      else case links db link_id of
        None \<Rightarrow> []
      | Some l \<Rightarrow>
         (case users db (user_id l) of
            None \<Rightarrow> []
          | Some u \<Rightarrow>
              if \<not> truthy (voice_clone_id u) then []
              else if \<not> truthy (voice_message_text l) then []
              else
                (let text = or_empty (voice_message_text l)
                 in if py_strip text = [] then []
                    else
                      (let audio_path = ''link_voices/''
                                        @ audio_filename link_id (now_timestamp e);
                           (fs1, success) = generate_voice_audio e audio_path (files db)
                       in if \<not> success then [db\<lparr>files := fs1\<rparr>]
                          else if fs1 audio_path = None then [db\<lparr>files := fs1\<rparr>]
                          else
                            [db\<lparr>files := fs1\<rparr>,
                             db\<lparr>files := delete_old_audio e (voice_message_audio l) fs1\<rparr>,
                             db\<lparr>links := (links db)(link_id \<mapsto>
                                   l\<lparr>voice_message_audio := Some audio_path,
                                     voice_message_text := Some text\<rparr>),
                                files := delete_old_audio e (voice_message_audio l) fs1\<rparr>]))))"

subsection \<open>Sample inputs for the handlers\<close>

text \<open>
  One link (id 1) of one user (id 7) with a voice clone and a selected script, used to
  run the handlers on concrete states.
\<close>

abbreviation sample_link :: "string option \<Rightarrow> link" where
  "sample_link audio \<equiv>
     \<lparr>user_id = 7, script_brief = None, script_standard = None,
      script_conversational = None, selected_script = Some ''Hello there'',
      voice_message_text = Some ''Hello there'', voice_message_audio = audio\<rparr>"

abbreviation sample_state :: "string option \<Rightarrow> (string \<rightharpoonup> string) \<Rightarrow> state" where
  "sample_state audio fs \<equiv>
     \<lparr>links = [1 \<mapsto> sample_link audio],
      users = [7 \<mapsto> \<lparr>voice_clone_id = Some ''voice-abc''\<rparr>],
      files = fs\<rparr>"

abbreviation sample_env :: "string \<Rightarrow> tts_outcome \<Rightarrow> bool \<Rightarrow> env" where
  "sample_env ts outcome unlink_raises \<equiv>
     \<lparr>elevenlabs_api_key = True, now_timestamp = ts, tts = outcome,
      unlink_fails = unlink_raises\<rparr>"

section \<open>Properties of the script writer\<close>

declare pad_scripts.simps [simp del]

lemma pad_scripts_eq:
  "pad_scripts fb n scripts = scripts @ replicate (nat (n - int (length scripts))) fb"
proof (induction fb n scripts rule: pad_scripts.induct)
  case (1 fb n scripts)
  show ?case
  proof (cases "int (length scripts) < n")
    case True
    then have "nat (n - int (length scripts)) = Suc (nat (n - int (length (scripts @ [fb]))))"
      by simp
    with True "1.IH" show ?thesis
      by (subst pad_scripts.simps) (simp add: replicate_append_same)
  next
    case False
    then show ?thesis by (subst pad_scripts.simps) simp
  qed
qed

lemma length_parse_multiple_scripts:
  "0 \<le> n \<Longrightarrow> length (parse_multiple_scripts txt n) = nat n"
  unfolding parse_multiple_scripts_def Let_def pad_scripts_eq py_slice_to_def
  by simp

lemma split_ws_words:
  "w \<in> set (split_ws s) \<Longrightarrow> w \<noteq> [] \<and> (\<forall>c \<in> set w. \<not> isspace c)"
proof (induction s rule: split_ws.induct)
  case 1
  then show ?case by simp
next
  case (2 c cs)
  show ?case
  proof (cases "isspace c")
    case True
    with "2.prems" have "w \<in> set (split_ws cs)" by simp
    with "2.IH"(1)[OF True] show ?thesis .
  next
    case False
    with "2.prems" consider
        (first) "w = c # takeWhile (\<lambda>x. \<not> isspace x) cs"
      | (later) "w \<in> set (split_ws (dropWhile (\<lambda>x. \<not> isspace x) cs))"
      by auto
    then show ?thesis
    proof cases
      case first
      have "\<forall>x \<in> set (takeWhile (\<lambda>x. \<not> isspace x) cs). \<not> isspace x"
        by (blast dest: set_takeWhileD)
      with False first show ?thesis by simp
    next
      case later
      with "2.IH"(2)[OF False] show ?thesis .
    qed
  qed
qed

lemma split_ws_word_first:
  assumes "w \<noteq> []" "\<forall>c \<in> set w. \<not> isspace c" "r = [] \<or> isspace (hd r)"
  shows "split_ws (w @ r) = w # split_ws r"
proof -
  from assms(1) obtain c cs where w: "w = c # cs" by (cases w) auto
  have nsp: "\<forall>x \<in> set cs. \<not> isspace x" and c: "\<not> isspace c" using assms(2) w by auto
  have tw: "takeWhile (\<lambda>x. \<not> isspace x) (cs @ r) = cs"
    using nsp assms(3) by (cases r) (auto simp: takeWhile_append2)
  have dw: "dropWhile (\<lambda>x. \<not> isspace x) (cs @ r) = r"
    using nsp assms(3) by (cases r) (auto simp: dropWhile_append2)
  show ?thesis using c by (simp add: w tw dw)
qed

lemma split_ws_join:
  "\<forall>w \<in> set ws. w \<noteq> [] \<and> (\<forall>c \<in> set w. \<not> isspace c) \<Longrightarrow> split_ws (py_join '' '' ws) = ws"
proof (induction ws rule: induct_list012)
  case 1
  then show ?case by simp
next
  case (2 x)
  then show ?case using split_ws_word_first[of x "[]"] by simp
next
  case (3 x y xs)
  have sp: "isspace (CHR '' '')" by (simp add: isspace_def)
  have x: "x \<noteq> []" "\<forall>c \<in> set x. \<not> isspace c" using "3.prems" by auto
  have rest: "\<forall>w \<in> set (y # xs). w \<noteq> [] \<and> (\<forall>c \<in> set w. \<not> isspace c)"
    using "3.prems" by auto
  have ih: "split_ws (py_join '' '' (y # xs)) = y # xs"
    using "3.IH"(2)[OF rest] .
  have "split_ws (x @ ('' '' @ py_join '' '' (y # xs))) = x # split_ws ('' '' @ py_join '' '' (y # xs))"
    using x sp by (intro split_ws_word_first) simp_all
  also have "split_ws ('' '' @ py_join '' '' (y # xs)) = split_ws (py_join '' '' (y # xs))"
    using sp by simp
  finally show ?case using ih by simp
qed

lemma py_join_append_last:
  "ws \<noteq> [] \<Longrightarrow> py_join sep ws @ t = py_join sep (butlast ws @ [last ws @ t])"
  by (induction sep ws rule: py_join.induct) auto

lemma tokens_dropWhile_le:
  "length (split_ws (dropWhile (\<lambda>x. \<not> isspace x) b)) \<le> length (split_ws b)"
  by (cases b) auto

lemma tokens_append_le:
  "length (split_ws (a @ b)) \<le> length (split_ws a) + length (split_ws b)"
proof (induction a rule: split_ws.induct)
  case 1
  then show ?case by simp
next
  case (2 c cs)
  show ?case
  proof (cases "isspace c")
    case True
    with 2 show ?thesis by simp
  next
    case False
    show ?thesis
    proof (cases "\<forall>x \<in> set cs. \<not> isspace x")
      case True
      then have "dropWhile (\<lambda>x. \<not> isspace x) (cs @ b) = dropWhile (\<lambda>x. \<not> isspace x) b"
        by (simp add: dropWhile_append2)
      with False tokens_dropWhile_le[of b] show ?thesis by simp
    next
      case nall: False
      then have "dropWhile (\<lambda>x. \<not> isspace x) (cs @ b) = dropWhile (\<lambda>x. \<not> isspace x) cs @ b"
        by (auto simp: dropWhile_append1)
      with False "2.IH"(2) show ?thesis by simp
    qed
  qed
qed

lemma tokens_half_aux:
  "2 * length (split_ws s) \<le> Suc (length s)
   \<and> ((s = [] \<or> isspace (hd s)) \<longrightarrow> 2 * length (split_ws s) \<le> length s)"
proof (induction s rule: split_ws.induct)
  case 1
  then show ?case by simp
next
  case (2 c cs)
  show ?case
  proof (cases "isspace c")
    case True
    with 2 show ?thesis by simp
  next
    case False
    define d where "d = dropWhile (\<lambda>x. \<not> isspace x) cs"
    have hd: "d = [] \<or> isspace (hd d)"
      using hd_dropWhile[of "\<lambda>x. \<not> isspace x" cs] by (auto simp: d_def)
    have ih: "2 * length (split_ws d) \<le> Suc (length d)
       \<and> ((d = [] \<or> isspace (hd d)) \<longrightarrow> 2 * length (split_ws d) \<le> length d)"
      using "2.IH"(2)[OF False] unfolding d_def .
    with hd have "2 * length (split_ws d) \<le> length d" by blast
    moreover have "length d \<le> length cs" by (simp add: d_def length_dropWhile_le)
    ultimately show ?thesis using False by (simp add: d_def)
  qed
qed


lemma tokens_half: "2 * length (split_ws s) \<le> Suc (length s)"
  using tokens_half_aux by blast

lemma tokens_join_take_ellipsis:
  assumes "0 < n" "n \<le> length (split_ws s)"
  shows "length (split_ws (py_join '' '' (take n (split_ws s)) @ ''...'')) = n"
proof -
  define ws where "ws = take n (split_ws s)"
  have len: "length ws = n" using assms(2) by (simp add: ws_def)
  then have ne: "ws \<noteq> []" using assms(1) by auto
  have words: "\<forall>w \<in> set ws. w \<noteq> [] \<and> (\<forall>c \<in> set w. \<not> isspace c)"
    using split_ws_words[of _ s] by (auto simp: ws_def dest: in_set_takeD)
  have dot: "\<not> isspace (CHR ''.'')" by (simp add: isspace_def)
  have words': "\<forall>w \<in> set (butlast ws @ [last ws @ ''...'']). w \<noteq> [] \<and> (\<forall>c \<in> set w. \<not> isspace c)"
    using words ne dot by (auto dest: in_set_butlastD)
  have "split_ws (py_join '' '' ws @ ''...'') = butlast ws @ [last ws @ ''...'']"
    unfolding py_join_append_last[OF ne] by (rule split_ws_join[OF words'])
  then have "length (split_ws (py_join '' '' ws @ ''...'')) = length ws"
    using ne by simp
  then show ?thesis using len by (simp only: ws_def)
qed

lemma tokens_limit_words: "length (split_ws (limit_words s)) \<le> 55"
proof (cases "55 < length (split_ws s)")
  case False
  then show ?thesis by (simp add: limit_words_def Let_def)
next
  case True
  then have "length (split_ws (py_join '' '' (take 50 (split_ws s)) @ ''...'')) = 50"
    by (intro tokens_join_take_ellipsis) simp_all
  with True show ?thesis by (simp add: limit_words_def Let_def)
qed

lemma tokens_fallback: "length (split_ws (script (fallback_candidate parts))) \<le> 32"
proof -
  define x where "x = (case parts of [] \<Rightarrow> ''this amazing offer'' | p # _ \<Rightarrow> take 50 p)"
  have "length x \<le> 50" by (cases parts) (simp_all add: x_def)
  with tokens_half[of x] have x: "length (split_ws x) \<le> 25" by linarith
  have a: "length (split_ws ''Check out '') = 2" by (simp add: isspace_def)
  have b: "length (split_ws ''... Click to learn more!'') = 5" by (simp add: isspace_def)
  have "length (split_ws (''Check out '' @ (x @ ''... Click to learn more!'')))
          \<le> length (split_ws ''Check out '') + length (split_ws (x @ ''... Click to learn more!''))"
    by (rule tokens_append_le)
  also have "length (split_ws (x @ ''... Click to learn more!''))
          \<le> length (split_ws x) + length (split_ws ''... Click to learn more!'')"
    by (rule tokens_append_le)
  finally have "length (split_ws (''Check out '' @ (x @ ''... Click to learn more!''))) \<le> 32"
    using x a b by linarith
  then show ?thesis by (simp add: fallback_candidate_def x_def)
qed

lemma parse_multiple_scripts_shape:
  "parse_multiple_scripts txt 3 =
     map parsed_candidate (take 3 (split_parts txt 3))
     @ replicate (3 - length (take 3 (split_parts txt 3))) (fallback_candidate (split_parts txt 3))"
proof -
  have "nat (3 - int (min (length (split_parts txt 3)) 3)) = 3 - min (length (split_parts txt 3)) 3"
    by linarith
  then show ?thesis
    unfolding parse_multiple_scripts_def Let_def pad_scripts_eq py_slice_to_def by simp
qed

lemma parsed_candidate_word_count:
  "word_count (parsed_candidate t) = int (length (split_ws (script (parsed_candidate t))))"
  by (simp add: parsed_candidate_def Let_def)

text \<open>
  Claim C1. With a provider configured and a reply received, \<open>generate_pitch_scripts\<close>
  (called with its default of 3 options) returns exactly 3 candidates for every reply
  text, the empty one included: the parsed segments, at most 3 of them, followed by as
  many copies of the templated fallback candidate as are needed to fill the 3 slots.
\<close>

theorem generate_pitch_scripts_three:
  "\<exists>cs. generate_pitch_scripts (Some p) (Inr content) 3 = Inr cs \<and> length cs = 3
     \<and> cs = map parsed_candidate (take 3 (split_parts (py_strip content) 3))
            @ replicate (3 - length (take 3 (split_parts (py_strip content) 3)))
                (fallback_candidate (split_parts (py_strip content) 3))"
proof -
  have "length (parse_multiple_scripts (py_strip content) 3) = 3"
    using length_parse_multiple_scripts[of 3 "py_strip content"] by simp
  then show ?thesis
    using parse_multiple_scripts_shape[of "py_strip content"]
    by (simp add: generate_pitch_scripts_def)
qed

text \<open>
  Claim C10. \<open>generate_pitch_scripts\<close> returns 3 candidates, each of at most 55
  whitespace-separated words. The candidate at a position that has a segment is the
  cleaned segment: when the cleaned text has more than 55 words it is its first 50 words,
  joined by single spaces, with an ellipsis appended (50 words in all); when it has at
  most 55 words (so also 51 to 55) it is the cleaned text itself, untruncated. The
  candidate at a position without a segment is the fallback, of at most 32 words.
\<close>

theorem script_word_bound:
  "generate_pitch_scripts (Some p) (Inr content) 3 = Inr cs \<longrightarrow>
     length cs = 3
     \<and> (\<forall>i < 3.
           length (split_ws (script (cs ! i))) \<le> 55
           \<and> (i < length (split_parts (py_strip content) 3) \<longrightarrow>
                 script (cs ! i) = clean_script (split_parts (py_strip content) 3 ! i)
                 \<and> (55 < length (split_ws (clean_lines (split_parts (py_strip content) 3 ! i)))
                      \<longrightarrow> script (cs ! i)
                          = py_join '' ''
                              (take 50 (split_ws (clean_lines
                                 (split_parts (py_strip content) 3 ! i)))) @ ''...''
                          \<and> length (split_ws (script (cs ! i))) = 50)
                 \<and> (length (split_ws (clean_lines (split_parts (py_strip content) 3 ! i))) \<le> 55
                      \<longrightarrow> script (cs ! i) = clean_lines (split_parts (py_strip content) 3 ! i)))
           \<and> (length (split_parts (py_strip content) 3) \<le> i \<longrightarrow>
                 cs ! i = fallback_candidate (split_parts (py_strip content) 3)
                 \<and> length (split_ws (script (cs ! i))) \<le> 32))"
proof (intro impI)
  assume g: "generate_pitch_scripts (Some p) (Inr content) 3 = Inr cs"
  define ps where "ps = split_parts (py_strip content) 3"
  define k where "k = length (take 3 ps)"
  from g have "cs = parse_multiple_scripts (py_strip content) 3"
    by (simp add: generate_pitch_scripts_def)
  then have cs: "cs = map parsed_candidate (take 3 ps) @ replicate (3 - k) (fallback_candidate ps)"
    by (simp only: parse_multiple_scripts_shape ps_def k_def)
  have k: "k = min (length ps) 3" by (simp add: k_def)
  have len: "length cs = 3" by (simp add: cs k)
  have parsed: "cs ! i = parsed_candidate (ps ! i)" if "i < 3" "i < length ps" for i
  proof -
    from that have "i < length (map parsed_candidate (take 3 ps))" by simp
    then have "cs ! i = map parsed_candidate (take 3 ps) ! i"
      by (simp only: cs nth_append if_True)
    also have "\<dots> = parsed_candidate (ps ! i)" using that by simp
    finally show ?thesis .
  qed
  have fallback: "cs ! i = fallback_candidate ps" if "i < 3" "length ps \<le> i" for i
  proof -
    from that have ki: "k \<le> i" and "i - k < 3 - k" by (simp_all add: k)
    then show ?thesis by (simp add: cs nth_append k_def)
  qed
  have script_parsed: "script (parsed_candidate t) = limit_words (clean_lines t)" for t
    by (simp add: parsed_candidate_def Let_def clean_script_def)
  have long: "limit_words s = py_join '' '' (take 50 (split_ws s)) @ ''...''
               \<and> length (split_ws (limit_words s)) = 50"
    if "55 < length (split_ws s)" for s
  proof -
    from that have "length (split_ws (py_join '' '' (take 50 (split_ws s)) @ ''...'')) = 50"
      by (intro tokens_join_take_ellipsis) simp_all
    with that show ?thesis by (simp add: limit_words_def Let_def)
  qed
  have short: "limit_words s = s" if "length (split_ws s) \<le> 55" for s
    using that by (simp add: limit_words_def Let_def)
  have each: "length (split_ws (script (cs ! i))) \<le> 55
       \<and> (i < length ps \<longrightarrow>
             script (cs ! i) = clean_script (ps ! i)
             \<and> (55 < length (split_ws (clean_lines (ps ! i)))
                  \<longrightarrow> script (cs ! i) = py_join '' '' (take 50 (split_ws (clean_lines (ps ! i)))) @ ''...''
                      \<and> length (split_ws (script (cs ! i))) = 50)
             \<and> (length (split_ws (clean_lines (ps ! i))) \<le> 55
                  \<longrightarrow> script (cs ! i) = clean_lines (ps ! i)))
       \<and> (length ps \<le> i \<longrightarrow>
             cs ! i = fallback_candidate ps \<and> length (split_ws (script (cs ! i))) \<le> 32)"
    if i: "i < 3" for i
  proof (cases "i < length ps")
    case True
    have s: "script (cs ! i) = limit_words (clean_lines (ps ! i))"
      using parsed[OF i True] script_parsed by simp
    have a: "length (split_ws (script (cs ! i))) \<le> 55"
      unfolding s by (rule tokens_limit_words)
    have b: "script (cs ! i) = clean_script (ps ! i)"
      by (simp only: s clean_script_def)
    have c: "script (cs ! i) = py_join '' '' (take 50 (split_ws (clean_lines (ps ! i)))) @ ''...''
          \<and> length (split_ws (script (cs ! i))) = 50"
      if "55 < length (split_ws (clean_lines (ps ! i)))"
      unfolding s using long[OF that] .
    have d: "script (cs ! i) = clean_lines (ps ! i)"
      if "length (split_ws (clean_lines (ps ! i))) \<le> 55"
      unfolding s using short[OF that] .
    from True have e: "\<not> length ps \<le> i" by simp
    from a b c d e show ?thesis by blast
  next
    case False
    then have f: "cs ! i = fallback_candidate ps" using fallback[OF i] by simp
    have "length (split_ws (script (cs ! i))) \<le> 32"
      unfolding f by (rule tokens_fallback)
    with False f show ?thesis by simp
  qed
  show "length cs = 3 \<and> (\<forall>i < 3.
           length (split_ws (script (cs ! i))) \<le> 55
           \<and> (i < length (split_parts (py_strip content) 3) \<longrightarrow>
                 script (cs ! i) = clean_script (split_parts (py_strip content) 3 ! i)
                 \<and> (55 < length (split_ws (clean_lines (split_parts (py_strip content) 3 ! i)))
                      \<longrightarrow> script (cs ! i)
                          = py_join '' ''
                              (take 50 (split_ws (clean_lines
                                 (split_parts (py_strip content) 3 ! i)))) @ ''...''
                          \<and> length (split_ws (script (cs ! i))) = 50)
                 \<and> (length (split_ws (clean_lines (split_parts (py_strip content) 3 ! i))) \<le> 55
                      \<longrightarrow> script (cs ! i) = clean_lines (split_parts (py_strip content) 3 ! i)))
           \<and> (length (split_parts (py_strip content) 3) \<le> i \<longrightarrow>
                 cs ! i = fallback_candidate (split_parts (py_strip content) 3)
                 \<and> length (split_ws (script (cs ! i))) \<le> 32))"
    unfolding ps_def[symmetric] using len each by blast
qed

lemma empty_reply_scripts:
  "generate_pitch_scripts (Some OpenAI) (Inr '''') 3
     = Inr (replicate 3 \<lparr>script = ''Check out this amazing offer... Click to learn more!'',
                          word_count = 10\<rparr>)"
  by (simp add: generate_pitch_scripts_def parse_multiple_scripts_def split_parts_def
      nonblank_stripped_def re_split_markers_def py_split_def py_strip_def py_slice_to_def
      pad_scripts_eq fallback_candidate_def numeral_3_eq_3)

text \<open>
  Claim C2. The claim asks that \<open>word_count\<close> equal the number of whitespace-separated
  tokens of \<open>script\<close> for every returned entry. Parsed candidates satisfy it
  (\<open>parsed_candidate_word_count\<close>), but the fallback candidate carries the constant 10:
  on the empty reply all three entries are the default fallback, whose script has 9
  tokens.
\<close>

theorem fallback_word_count_mismatch:
  "generate_pitch_scripts (Some OpenAI) (Inr '''') 3
     = Inr (replicate 3 \<lparr>script = ''Check out this amazing offer... Click to learn more!'',
                          word_count = 10\<rparr>)
   \<and> length (split_ws ''Check out this amazing offer... Click to learn more!'') = 9"
  using empty_reply_scripts by (simp add: isspace_def)

text \<open>
  C10 at a concrete reply: two paragraphs, of 56 and of 51 words. The first candidate
  is cut to 50 words, the second is returned whole, the third is the fallback.
\<close>

theorem script_word_bound_witness:
  "generate_pitch_scripts (Some OpenAI)
     (Inr (py_join '' '' (replicate 56 ''go'') @ [CHR 0x0A, CHR 0x0A]
           @ py_join '' '' (replicate 51 ''go''))) 3
     = Inr [\<lparr>script = py_join '' '' (replicate 50 ''go'') @ ''...'', word_count = 50\<rparr>,
            \<lparr>script = py_join '' '' (replicate 51 ''go''), word_count = 51\<rparr>,
            \<lparr>script = ''Check out '' @ take 50 (py_join '' '' (replicate 56 ''go''))
                       @ ''... Click to learn more!'',
             word_count = 10\<rparr>]
   \<and> split_parts (py_strip (py_join '' '' (replicate 56 ''go'')
           @ [CHR 0x0A, CHR 0x0A] @ py_join '' '' (replicate 51 ''go''))) 3
     = [py_join '' '' (replicate 56 ''go''), py_join '' '' (replicate 51 ''go'')]
   \<and> 55 < length (split_ws (clean_lines (py_join '' '' (replicate 56 ''go''))))
   \<and> length (split_ws (py_join '' '' (replicate 50 ''go'') @ ''...'')) = 50
   \<and> length (split_ws (clean_lines (py_join '' '' (replicate 51 ''go'')))) \<le> 55
   \<and> clean_lines (py_join '' '' (replicate 51 ''go'')) = py_join '' '' (replicate 51 ''go'')
   \<and> length (split_ws (py_join '' '' (replicate 51 ''go''))) \<le> 55
   \<and> length (split_ws (''Check out '' @ take 50 (py_join '' '' (replicate 56 ''go''))
                        @ ''... Click to learn more!'')) \<le> 32"
proof -
  let ?t56 = "py_join '' '' (replicate 56 ''go'')"
  let ?t51 = "py_join '' '' (replicate 51 ''go'')"
  let ?reply = "?t56 @ [CHR 0x0A, CHR 0x0A] @ ?t51"
  let ?cs = "[\<lparr>script = py_join '' '' (replicate 50 ''go'') @ ''...'', word_count = 50\<rparr>,
              \<lparr>script = ?t51, word_count = 51\<rparr>,
              \<lparr>script = ''Check out '' @ take 50 ?t56 @ ''... Click to learn more!'',
               word_count = 10\<rparr>]"
  have g: "generate_pitch_scripts (Some OpenAI) (Inr ?reply) 3 = Inr ?cs" by code_simp
  have ps: "split_parts (py_strip ?reply) 3 = [?t56, ?t51]" by code_simp
  have h56: "55 < length (split_ws (clean_lines ?t56))" by code_simp
  have h51: "length (split_ws (clean_lines ?t51)) \<le> 55" by code_simp
  from script_word_bound[of OpenAI ?reply ?cs] g
  have all: "\<forall>i < 3.
           length (split_ws (script (?cs ! i))) \<le> 55
           \<and> (i < length (split_parts (py_strip ?reply) 3) \<longrightarrow>
                 script (?cs ! i) = clean_script (split_parts (py_strip ?reply) 3 ! i)
                 \<and> (55 < length (split_ws (clean_lines (split_parts (py_strip ?reply) 3 ! i)))
                      \<longrightarrow> script (?cs ! i)
                          = py_join '' ''
                              (take 50 (split_ws (clean_lines
                                 (split_parts (py_strip ?reply) 3 ! i)))) @ ''...''
                          \<and> length (split_ws (script (?cs ! i))) = 50)
                 \<and> (length (split_ws (clean_lines (split_parts (py_strip ?reply) 3 ! i))) \<le> 55
                      \<longrightarrow> script (?cs ! i) = clean_lines (split_parts (py_strip ?reply) 3 ! i)))
           \<and> (length (split_parts (py_strip ?reply) 3) \<le> i \<longrightarrow>
                 ?cs ! i = fallback_candidate (split_parts (py_strip ?reply) 3)
                 \<and> length (split_ws (script (?cs ! i))) \<le> 32)"
    by blast
  have lt: "0 < (3::nat)" "1 < (3::nat)" "2 < (3::nat)" by simp_all
  have i0: "0 < length [?t56, ?t51]" and i1: "1 < length [?t56, ?t51]"
    and i2: "length [?t56, ?t51] \<le> 2"
    by simp_all
  have h56': "55 < length (split_ws (clean_lines ([?t56, ?t51] ! 0)))"
    using h56 by simp
  have h51': "length (split_ws (clean_lines ([?t56, ?t51] ! 1))) \<le> 55"
    using h51 by simp
  from all[unfolded ps, rule_format, OF lt(1)] i0 h56'
  have "length (split_ws (script (?cs ! 0))) = 50" by blast
  then have a: "length (split_ws (py_join '' '' (replicate 50 ''go'') @ ''...'')) = 50"
    by simp
  from all[unfolded ps, rule_format, OF lt(2)] i1 h51'
  have "length (split_ws (script (?cs ! 1))) \<le> 55"
    and "script (?cs ! 1) = clean_lines ([?t56, ?t51] ! 1)"
    by blast+
  then have b: "length (split_ws ?t51) \<le> 55" and b': "clean_lines ?t51 = ?t51"
    by simp_all
  from all[unfolded ps, rule_format, OF lt(3)] i2
  have "length (split_ws (script (?cs ! 2))) \<le> 32" by blast
  then have c: "length (split_ws (''Check out '' @ take 50 ?t56 @ ''... Click to learn more!'')) \<le> 32"
    by simp
  from g ps h56 a h51 b' b c show ?thesis by (intro conjI)
qed

section \<open>Properties of the content extractor\<close>

text \<open>
  Claim C4. For every URL and content, \<open>identify_link_type\<close> returns a member of the
  8-member enumeration, the one picked by the first matching rule in the order course,
  coaching, product, newsletter, blog, video, social, with website when no rule matches.
  In particular, when the combined lowercased text contains both "course" and "buy now"
  the answer is course, not product.
\<close>

theorem identify_link_type_first_match:
  "identify_link_type url c = first_match (priority_rules url c)
   \<and> (py_in ''course'' (combined_text url c) \<and> py_in ''buy now'' (combined_text url c)
        \<longrightarrow> identify_link_type url c = Course \<and> identify_link_type url c \<noteq> Product)"
proof -
  have order: "identify_link_type url c = first_match (priority_rules url c)"
    by (simp add: identify_link_type_def priority_rules_def Let_def)
  have course: "identify_link_type url c = Course" if "py_in ''course'' (combined_text url c)"
  proof -
    from that
    have "any_in [''course'', ''learn'', ''lesson'', ''module'', ''curriculum'', ''training'']
            (combined_text url c)"
      by (simp add: any_in_def)
    then show ?thesis by (simp add: identify_link_type_def Let_def)
  qed
  from order course show ?thesis by simp
qed

text \<open>
  C4 at a concrete page: the title holds "Course" and the description "Buy now".
\<close>

theorem identify_link_type_first_match_witness:
  "py_in ''course'' (combined_text ''https://x.com/start''
       \<lparr>title = Some ''My Course'', meta_description = Some ''Buy now'',
        preview_text = None, full_content = None\<rparr>)
   \<and> py_in ''buy now'' (combined_text ''https://x.com/start''
       \<lparr>title = Some ''My Course'', meta_description = Some ''Buy now'',
        preview_text = None, full_content = None\<rparr>)
   \<and> identify_link_type ''https://x.com/start''
       \<lparr>title = Some ''My Course'', meta_description = Some ''Buy now'',
        preview_text = None, full_content = None\<rparr> = Course"
proof -
  let ?c = "\<lparr>title = Some ''My Course'', meta_description = Some ''Buy now'',
             preview_text = None, full_content = None\<rparr>"
  have a: "py_in ''course'' (combined_text ''https://x.com/start'' ?c)" by code_simp
  have b: "py_in ''buy now'' (combined_text ''https://x.com/start'' ?c)" by code_simp
  from identify_link_type_first_match[of "''https://x.com/start''" ?c] a b
  show ?thesis by blast
qed

lemma tokens_preview_of: "length (split_ws (preview_of nt)) \<le> 200"
proof (cases "200 < length (split_ws nt)")
  case False
  then show ?thesis by (simp add: preview_of_def Let_def)
next
  case True
  then have "length (split_ws (py_join '' '' (take 200 (split_ws nt)) @ ''...'')) = 200"
    by (intro tokens_join_take_ellipsis) simp_all
  with True show ?thesis by (simp add: preview_of_def Let_def)
qed

text \<open>
  Claim C5, as the code has it. For every fetched page the preview has at most 200
  whitespace-separated words. When the normalized text has more than 200 words the
  preview is its first 200 words joined by single spaces with an ellipsis appended (so
  it ends with the ellipsis); when it has at most 200 words the preview is the whole
  normalized text, whatever that text ends with.
\<close>

theorem preview_text_words:
  "\<exists>pv. preview_text (scrape_page_content (Inr pg)) = Some pv
      \<and> full_content (scrape_page_content (Inr pg)) = Some (normalize_text (body_text pg))
      \<and> length (split_ws pv) \<le> 200
      \<and> (200 < length (split_ws (normalize_text (body_text pg)))
           \<longrightarrow> pv = py_join '' '' (take 200 (split_ws (normalize_text (body_text pg)))) @ ''...''
               \<and> endswith pv ''...'')
      \<and> (length (split_ws (normalize_text (body_text pg))) \<le> 200
           \<longrightarrow> pv = normalize_text (body_text pg))"
proof -
  define nt where "nt = normalize_text (body_text pg)"
  have pv: "preview_text (scrape_page_content (Inr pg)) = Some (preview_of nt)"
    and fc: "full_content (scrape_page_content (Inr pg)) = Some nt"
    by (simp_all add: scrape_page_content_def Let_def nt_def)
  have long: "200 < length (split_ws nt) \<Longrightarrow>
      preview_of nt = py_join '' '' (take 200 (split_ws nt)) @ ''...''"
    by (simp add: preview_of_def Let_def)
  have ends: "endswith (py_join '' '' (take 200 (split_ws nt)) @ ''...'') ''...''"
    by (simp add: endswith_def)
  have short: "length (split_ws nt) \<le> 200 \<Longrightarrow> preview_of nt = nt"
    by (simp add: preview_of_def Let_def)
  show ?thesis
    unfolding nt_def[symmetric] pv fc
    using tokens_preview_of[of nt] long ends short by auto
qed

text \<open>
  C5 as stated fails in the direction "ends with an ellipsis only if truncated": a page
  whose text is the single word "wait..." is not truncated, and its preview ends with
  the ellipsis of the text itself.
\<close>

theorem preview_ellipsis_counterexample:
  "preview_text (scrape_page_content
       (Inr \<lparr>title_tag = None, meta_name_description = None, meta_og_description = None,
             body_text = ''wait...''\<rparr>)) = Some ''wait...''
   \<and> full_content (scrape_page_content
       (Inr \<lparr>title_tag = None, meta_name_description = None, meta_og_description = None,
             body_text = ''wait...''\<rparr>)) = Some ''wait...''
   \<and> endswith ''wait...'' ''...''
   \<and> length (split_ws ''wait...'') = 1"
  by code_simp

text \<open>
  Claim C8. When the fetch raises (timeout, connection failure or HTTP status error),
  \<open>scrape_page_content\<close> returns the record with title, description, preview and
  full content all absent instead of raising, and \<open>scrape_link_content\<close> still
  carries a link type of the enumeration, computed from the URL alone, and a context
  summary that names it.
\<close>

theorem fetch_failure_gives_empty_content:
  "scrape_page_content (Inl e)
     = \<lparr>title = None, meta_description = None, preview_text = None, full_content = None\<rparr>
   \<and> scrape_link_content url (Inl e)
     = \<lparr>title = None, meta_description = None, preview_text = None, full_content = None,
        link_type = identify_link_type url empty_content,
        context_summary = ''Link Type: '' @ link_type_name (identify_link_type url empty_content)\<rparr>"
  by (simp add: scrape_page_content_def scrape_link_content_def empty_content_def Let_def
      create_context_summary_def truthy_def content.extend_def extracted.fields_def)


text \<open>
  C5 at concrete pages: a text of 201 words (truncated to 200) and a text of two words
  (returned whole, normalized).
\<close>

theorem preview_text_words_witness:
  "200 < length (split_ws (normalize_text (py_join '' '' (replicate 201 ''go''))))
   \<and> preview_text (scrape_page_content
         (Inr \<lparr>title_tag = None, meta_name_description = None, meta_og_description = None,
               body_text = py_join '' '' (replicate 201 ''go'')\<rparr>))
       = Some (py_join '' '' (replicate 200 ''go'') @ ''...'')
   \<and> length (split_ws (normalize_text ''one  two'')) \<le> 200
   \<and> preview_text (scrape_page_content
         (Inr \<lparr>title_tag = None, meta_name_description = None, meta_og_description = None,
               body_text = ''one  two''\<rparr>))
       = Some ''one two''"
proof -
  let ?long = "\<lparr>title_tag = None, meta_name_description = None, meta_og_description = None,
                body_text = py_join '' '' (replicate 201 ''go'')\<rparr>"
  let ?short = "\<lparr>title_tag = None, meta_name_description = None, meta_og_description = None,
                 body_text = ''one  two''\<rparr>"
  have h1: "200 < length (split_ws (normalize_text (body_text ?long)))" by code_simp
  have e1: "py_join '' '' (take 200 (split_ws (normalize_text (body_text ?long))))
              = py_join '' '' (replicate 200 ''go'')" by code_simp
  have h2: "length (split_ws (normalize_text (body_text ?short))) \<le> 200" by code_simp
  have e2: "normalize_text (body_text ?short) = ''one two''" by code_simp
  from preview_text_words[of ?long] h1 e1
  have a: "preview_text (scrape_page_content (Inr ?long))
             = Some (py_join '' '' (replicate 200 ''go'') @ ''...'')"
    by auto
  from preview_text_words[of ?short] h2 e2
  have b: "preview_text (scrape_page_content (Inr ?short)) = Some ''one two''"
    by auto
  from h1 h2 a b show ?thesis by simp
qed

section \<open>Properties of the link handlers\<close>

text \<open>
  Claim C9. When a request for an existing link supplies several of \<open>script\<close>,
  \<open>custom_text\<close> and \<open>script_type\<close>, a non-empty \<open>script\<close> wins whatever the other
  two hold, and without it a non-empty \<open>custom_text\<close> wins whatever
  \<open>script_type\<close> holds; the winning text is stored in both \<open>selected_script\<close> and
  \<open>voice_message_text\<close> and returned.
\<close>

theorem select_script_precedence:
  "links db lid = Some l \<Longrightarrow>
     (truthy (request ''script'') \<longrightarrow>
        select_script_for_link lid request db
          = (db\<lparr>links := (links db)(lid \<mapsto> l\<lparr>selected_script := request ''script'',
                                                voice_message_text := request ''script''\<rparr>)\<rparr>,
             Inr (Selected lid (or_empty (request ''script'')))))
   \<and> (\<not> truthy (request ''script'') \<and> truthy (request ''custom_text'') \<longrightarrow>
        select_script_for_link lid request db
          = (db\<lparr>links := (links db)(lid \<mapsto> l\<lparr>selected_script := request ''custom_text'',
                                                voice_message_text := request ''custom_text''\<rparr>)\<rparr>,
             Inr (Selected lid (or_empty (request ''custom_text'')))))"
  by (auto simp: select_script_for_link_def Let_def truthy_def or_empty_def
      split: option.splits)

text \<open>
  C9 at concrete requests: all three fields supplied, and \<open>custom_text\<close> together
  with \<open>script_type\<close>.
\<close>

theorem select_script_precedence_witness:
  "select_script_for_link 1
     [''script'' \<mapsto> ''direct text'', ''custom_text'' \<mapsto> ''edited text'',
      ''script_type'' \<mapsto> ''brief'']
     \<lparr>links = [1 \<mapsto> \<lparr>user_id = 7, script_brief = Some ''short pitch'',
                         script_standard = None, script_conversational = None,
                         selected_script = None, voice_message_text = None,
                         voice_message_audio = None\<rparr>],
      users = Map.empty, files = Map.empty\<rparr>
   = (\<lparr>links = [1 \<mapsto> \<lparr>user_id = 7, script_brief = Some ''short pitch'',
                          script_standard = None, script_conversational = None,
                          selected_script = Some ''direct text'',
                          voice_message_text = Some ''direct text'',
                          voice_message_audio = None\<rparr>],
       users = Map.empty, files = Map.empty\<rparr>,
      Inr (Selected 1 ''direct text''))
   \<and> select_script_for_link 1
     [''custom_text'' \<mapsto> ''edited text'', ''script_type'' \<mapsto> ''brief'']
     \<lparr>links = [1 \<mapsto> \<lparr>user_id = 7, script_brief = Some ''short pitch'',
                         script_standard = None, script_conversational = None,
                         selected_script = None, voice_message_text = None,
                         voice_message_audio = None\<rparr>],
      users = Map.empty, files = Map.empty\<rparr>
   = (\<lparr>links = [1 \<mapsto> \<lparr>user_id = 7, script_brief = Some ''short pitch'',
                          script_standard = None, script_conversational = None,
                          selected_script = Some ''edited text'',
                          voice_message_text = Some ''edited text'',
                          voice_message_audio = None\<rparr>],
       users = Map.empty, files = Map.empty\<rparr>,
      Inr (Selected 1 ''edited text''))"
proof -
  let ?l = "\<lparr>user_id = 7, script_brief = Some ''short pitch'',
             script_standard = None, script_conversational = None,
             selected_script = None, voice_message_text = None,
             voice_message_audio = None\<rparr>"
  let ?db = "\<lparr>links = [1 \<mapsto> ?l], users = Map.empty, files = Map.empty\<rparr>"
  let ?r1 = "[''script'' \<mapsto> ''direct text'', ''custom_text'' \<mapsto> ''edited text'',
              ''script_type'' \<mapsto> ''brief'']"
  let ?r2 = "[''custom_text'' \<mapsto> ''edited text'', ''script_type'' \<mapsto> ''brief'']"
  have l: "links ?db 1 = Some ?l" by simp
  have t1: "truthy (?r1 ''script'')" by (simp add: truthy_def)
  have t2: "\<not> truthy (?r2 ''script'') \<and> truthy (?r2 ''custom_text'')" by (simp add: truthy_def)
  from select_script_precedence[OF l, of ?r1] t1
  have a: "select_script_for_link 1 ?r1 ?db
     = (?db\<lparr>links := (links ?db)(1 \<mapsto> ?l\<lparr>selected_script := ?r1 ''script'',
                                            voice_message_text := ?r1 ''script''\<rparr>)\<rparr>,
        Inr (Selected 1 (or_empty (?r1 ''script''))))"
    by blast
  from select_script_precedence[OF l, of ?r2] t2
  have b: "select_script_for_link 1 ?r2 ?db
     = (?db\<lparr>links := (links ?db)(1 \<mapsto> ?l\<lparr>selected_script := ?r2 ''custom_text'',
                                            voice_message_text := ?r2 ''custom_text''\<rparr>)\<rparr>,
        Inr (Selected 1 (or_empty (?r2 ''custom_text''))))"
    by blast
  show ?thesis
    unfolding a b by (simp add: or_empty_def)
qed

text \<open>
  Claim C3. The claim asks that selecting \<open>brief\<close> on a link whose variations were
  never generated fail with a script-not-found error and leave \<open>selected_script\<close> and
  \<open>voice_message_text\<close> as they were. The handler has no such check: it stores the
  unset \<open>script_brief\<close> in both fields, commits, and then fails on
  \<open>len(link.selected_script)\<close> with a \<open>TypeError\<close>. The earlier selection is lost.
\<close>

theorem select_unset_brief_overwrites:
  "select_script_for_link 1 [''script_type'' \<mapsto> ''brief'']
     \<lparr>links = [1 \<mapsto> \<lparr>user_id = 7, script_brief = None, script_standard = None,
                         script_conversational = None,
                         selected_script = Some ''my earlier pick'',
                         voice_message_text = Some ''my earlier pick'',
                         voice_message_audio = None\<rparr>],
      users = Map.empty, files = Map.empty\<rparr>
   = (\<lparr>links = [1 \<mapsto> \<lparr>user_id = 7, script_brief = None, script_standard = None,
                          script_conversational = None,
                          selected_script = None,
                          voice_message_text = None,
                          voice_message_audio = None\<rparr>],
       users = Map.empty, files = Map.empty\<rparr>,
      Inl TypeError)"
  by (simp add: select_script_for_link_def Let_def truthy_def)

lemma generate_voice_audio_fails:
  "tts e = RequestRaises \<or> (\<exists>st ch. tts e = Reply st ch \<and> st \<noteq> 200) \<or> (\<exists>ch. tts e = StreamRaises ch)
   \<Longrightarrow> snd (generate_voice_audio e p fs) = False"
  by (auto simp: generate_voice_audio_def generate_audio_def)

lemma generate_audio_for_link_error:
  assumes "generate_audio_for_link e lid db = (db', Inl err)"
  shows "links db' = links db \<and> users db' = users db"
  using assms
  by (auto simp: generate_audio_for_link_def Let_def
      split: if_splits option.splits prod.splits)

lemma generate_audio_for_link_success:
  assumes "generate_audio_for_link e lid db = (db', Inr p)"
  shows "p = ''link_voices/'' @ audio_filename lid (now_timestamp e)
     \<and> (\<exists>l fs1. links db lid = Some l
           \<and> fs1 = fst (generate_voice_audio e p (files db))
           \<and> snd (generate_voice_audio e p (files db))
           \<and> fs1 p \<noteq> None
           \<and> links db' = (links db)(lid \<mapsto>
                 l\<lparr>voice_message_audio := Some p,
                   voice_message_text := Some (or_empty (voice_message_text l))\<rparr>)
           \<and> files db' = delete_old_audio e (voice_message_audio l) fs1)"
  using assms
  by (auto simp: generate_audio_for_link_def Let_def
      split: if_splits option.splits prod.splits)

text \<open>
  Claim C6, as the code has it. When the speech request raises, the provider answers
  with a status other than 200, or the stream breaks while the file is written,
  \<open>generate_audio_for_link\<close> answers with an HTTP error; and whenever it answers with
  an error (so also when the output file is missing) the link and user records are
  exactly as before: no new path or text is stored.
\<close>

theorem synthesis_failure_leaves_link:
  assumes "generate_audio_for_link e lid db = (db', r)"
  shows "((tts e = RequestRaises \<or> (\<exists>st ch. tts e = Reply st ch \<and> st \<noteq> 200)
            \<or> (\<exists>ch. tts e = StreamRaises ch))
          \<longrightarrow> (\<exists>code detail. r = Inl (HTTPException code detail)))
       \<and> ((\<exists>err. r = Inl err) \<longrightarrow> links db' = links db \<and> users db' = users db)"
proof (intro conjI impI)
  assume f: "tts e = RequestRaises \<or> (\<exists>st ch. tts e = Reply st ch \<and> st \<noteq> 200)
            \<or> (\<exists>ch. tts e = StreamRaises ch)"
  have nosucc: "\<not> snd (generate_voice_audio e p fs)" for p fs
    using generate_voice_audio_fails[OF f] by simp
  show "\<exists>code detail. r = Inl (HTTPException code detail)"
  proof (cases r)
    case (Inl err)
    with assms show ?thesis
      by (auto simp: generate_audio_for_link_def Let_def
          split: if_splits option.splits prod.splits)
  next
    case (Inr p)
    with assms generate_audio_for_link_success[of e lid db db' p] nosucc
    show ?thesis by auto
  qed
next
  assume "\<exists>err. r = Inl err"
  with assms generate_audio_for_link_error show "links db' = links db" by blast
next
  assume "\<exists>err. r = Inl err"
  with assms generate_audio_for_link_error show "users db' = users db" by blast
qed

text \<open>
  C6 at a concrete state: the provider answers 503, the handler answers 500 and the
  link keeps its old audio path.
\<close>

theorem synthesis_failure_leaves_link_witness:
  "tts (sample_env ''1700000000.5'' (Reply 503 [''busy'']) False) = Reply 503 [''busy'']
   \<and> generate_audio_for_link (sample_env ''1700000000.5'' (Reply 503 [''busy'']) False) 1
        (sample_state (Some ''link_voices/link_1_1600000000.0.mp3'')
           [''link_voices/link_1_1600000000.0.mp3'' \<mapsto> ''old audio''])
     = (sample_state (Some ''link_voices/link_1_1600000000.0.mp3'')
           [''link_voices/link_1_1600000000.0.mp3'' \<mapsto> ''old audio''],
        Inl (HTTPException 500
              ''Failed to generate audio. Please check your voice clone and try again.''))
   \<and> links (fst (generate_audio_for_link
          (sample_env ''1700000000.5'' (Reply 503 [''busy'']) False) 1
          (sample_state (Some ''link_voices/link_1_1600000000.0.mp3'')
             [''link_voices/link_1_1600000000.0.mp3'' \<mapsto> ''old audio''])))
     = links (sample_state (Some ''link_voices/link_1_1600000000.0.mp3'')
             [''link_voices/link_1_1600000000.0.mp3'' \<mapsto> ''old audio''])"
proof -
  let ?e = "sample_env ''1700000000.5'' (Reply 503 [''busy'']) False"
  let ?db = "sample_state (Some ''link_voices/link_1_1600000000.0.mp3'')
               [''link_voices/link_1_1600000000.0.mp3'' \<mapsto> ''old audio'']"
  have ev: "generate_audio_for_link ?e 1 ?db
     = (?db, Inl (HTTPException 500
              ''Failed to generate audio. Please check your voice clone and try again.''))"
    by (simp add: generate_audio_for_link_def generate_voice_audio_def generate_audio_def
        Let_def truthy_def or_empty_def py_strip_def isspace_def)
  have f: "tts ?e = Reply 503 [''busy'']" by simp
  have "links (fst (generate_audio_for_link ?e 1 ?db)) = links ?db"
    using synthesis_failure_leaves_link[OF ev] ev by simp
  with ev f show ?thesis by simp
qed

text \<open>
  C6 as stated counts an empty body as a failure. The code does not: a 200 answer with
  no chunks creates an empty file, the handler succeeds and stores the new path.
\<close>

theorem empty_body_counterexample:
  "generate_audio_for_link (sample_env ''1700000000.5'' (Reply 200 []) False) 1
        (sample_state None Map.empty)
     = (sample_state (Some ''link_voices/link_1_1700000000.5.mp3'')
          [''link_voices/link_1_1700000000.5.mp3'' \<mapsto> []],
        Inr ''link_voices/link_1_1700000000.5.mp3'')"
  by (simp add: generate_audio_for_link_def generate_voice_audio_def generate_audio_def
      delete_old_audio_def audio_filename_def show_int_def show_nat.simps
      Let_def truthy_def or_empty_def py_strip_def isspace_def)

lemma audio_filename_inj: "audio_filename lid a = audio_filename lid b \<Longrightarrow> a = b"
  by (simp add: audio_filename_def)

lemma generate_audio_for_link_steps_final:
  "fst (generate_audio_for_link e lid db) = last (db # generate_audio_for_link_steps e lid db)"
  by (auto simp: generate_audio_for_link_def generate_audio_for_link_steps_def Let_def
      split: if_splits option.splits prod.splits)

lemma generate_audio_for_link_steps_success:
  assumes "generate_audio_for_link e lid db = (db', Inr p)"
  shows "\<exists>l fs1. links db lid = Some l
           \<and> fs1 = fst (generate_voice_audio e p (files db))
           \<and> generate_audio_for_link_steps e lid db
               = [db\<lparr>files := fs1\<rparr>,
                  db\<lparr>files := delete_old_audio e (voice_message_audio l) fs1\<rparr>,
                  db']"
  using assms
  by (auto simp: generate_audio_for_link_def generate_audio_for_link_steps_def Let_def
      split: if_splits option.splits prod.splits)

text \<open>
  Claim C7, as the code has it. After two successive successful calls for the same link
  that obtained different timestamps, the link references the path of the second call,
  which differs from the first; the referenced file exists in the artifact store; and
  the first call's file is gone unless deleting it raised in the second call. The second
  call passes through three states: the new file written, the old file unlinked, the new
  path committed. In the first two the link table is the one the first call left, so
  the reference still holds the first path: it is not cleared before the new path is
  written over it.
\<close>

theorem synthesize_twice:
  assumes "generate_audio_for_link e1 lid db0 = (db1, Inr p1)"
      and "generate_audio_for_link e2 lid db1 = (db2, Inr p2)"
      and "now_timestamp e1 \<noteq> now_timestamp e2"
  shows "p1 \<noteq> p2
       \<and> (\<exists>l. links db2 lid = Some l \<and> voice_message_audio l = Some p2)
       \<and> files db2 p2 \<noteq> None
       \<and> (\<not> unlink_fails e2 \<longrightarrow> files db2 p1 = None)
       \<and> (\<exists>written unlinked.
             generate_audio_for_link_steps e2 lid db1 = [written, unlinked, db2]
             \<and> files written p2 \<noteq> None
             \<and> links written = links db1 \<and> links unlinked = links db1
             \<and> (\<exists>l. links db1 lid = Some l \<and> voice_message_audio l = Some p1)
             \<and> (\<not> unlink_fails e2 \<longrightarrow> files unlinked p1 = None)
             \<and> files db2 = files unlinked)"
proof -
  from generate_audio_for_link_success[OF assms(1)]
  obtain l0 where p1: "p1 = ''link_voices/'' @ audio_filename lid (now_timestamp e1)"
    and l1: "links db1 lid = Some (l0\<lparr>voice_message_audio := Some p1,
                 voice_message_text := Some (or_empty (voice_message_text l0))\<rparr>)"
    by auto
  from generate_audio_for_link_success[OF assms(2)] l1
  obtain fs1 where p2: "p2 = ''link_voices/'' @ audio_filename lid (now_timestamp e2)"
    and fs1: "fs1 = fst (generate_voice_audio e2 p2 (files db1))"
    and ex: "fs1 p2 \<noteq> None"
    and l2: "\<exists>l. links db2 lid = Some l \<and> voice_message_audio l = Some p2"
    and f2: "files db2 = delete_old_audio e2 (Some p1) fs1"
    by auto
  from generate_audio_for_link_steps_success[OF assms(2)] l1 fs1
  have steps: "generate_audio_for_link_steps e2 lid db1
      = [db1\<lparr>files := fs1\<rparr>, db1\<lparr>files := delete_old_audio e2 (Some p1) fs1\<rparr>, db2]"
    by auto
  have ne: "p1 \<noteq> p2"
    using assms(3) audio_filename_inj[of lid "now_timestamp e1" "now_timestamp e2"]
    by (auto simp: p1 p2)
  have nonempty: "p1 \<noteq> []" by (simp add: p1)
  have kept: "files db2 p2 \<noteq> None"
    using ex ne by (simp add: f2 delete_old_audio_def)
  have gone: "delete_old_audio e2 (Some p1) fs1 p1 = None" if "\<not> unlink_fails e2"
    using that nonempty by (simp add: delete_old_audio_def)
  have ref: "\<exists>l. links db1 lid = Some l \<and> voice_message_audio l = Some p1"
    using l1 by simp
  have trace: "\<exists>written unlinked.
             generate_audio_for_link_steps e2 lid db1 = [written, unlinked, db2]
             \<and> files written p2 \<noteq> None
             \<and> links written = links db1 \<and> links unlinked = links db1
             \<and> (\<exists>l. links db1 lid = Some l \<and> voice_message_audio l = Some p1)
             \<and> (\<not> unlink_fails e2 \<longrightarrow> files unlinked p1 = None)
             \<and> files db2 = files unlinked"
    unfolding steps using ex ref gone f2 by simp
  from gone have gone2: "\<not> unlink_fails e2 \<longrightarrow> files db2 p1 = None" by (simp add: f2)
  from ne l2 kept gone2 trace show ?thesis by blast
qed

text \<open>
  C7 at a concrete state: two calls one minute apart, the deletion succeeding.
\<close>

theorem synthesize_twice_witness:
  "now_timestamp (sample_env ''1700000000.5'' (Reply 200 [''first'']) False)
     \<noteq> now_timestamp (sample_env ''1700000060.25'' (Reply 200 [''second'']) False)
   \<and> generate_audio_for_link (sample_env ''1700000000.5'' (Reply 200 [''first'']) False) 1
        (sample_state None Map.empty)
     = (sample_state (Some ''link_voices/link_1_1700000000.5.mp3'')
          [''link_voices/link_1_1700000000.5.mp3'' \<mapsto> ''first''],
        Inr ''link_voices/link_1_1700000000.5.mp3'')
   \<and> snd (generate_audio_for_link (sample_env ''1700000060.25'' (Reply 200 [''second'']) False) 1
        (sample_state (Some ''link_voices/link_1_1700000000.5.mp3'')
          [''link_voices/link_1_1700000000.5.mp3'' \<mapsto> ''first'']))
     = Inr ''link_voices/link_1_1700000060.25.mp3''
   \<and> files (fst (generate_audio_for_link
          (sample_env ''1700000060.25'' (Reply 200 [''second'']) False) 1
          (sample_state (Some ''link_voices/link_1_1700000000.5.mp3'')
            [''link_voices/link_1_1700000000.5.mp3'' \<mapsto> ''first''])))
        ''link_voices/link_1_1700000060.25.mp3'' \<noteq> None
   \<and> files (fst (generate_audio_for_link
          (sample_env ''1700000060.25'' (Reply 200 [''second'']) False) 1
          (sample_state (Some ''link_voices/link_1_1700000000.5.mp3'')
            [''link_voices/link_1_1700000000.5.mp3'' \<mapsto> ''first''])))
        ''link_voices/link_1_1700000000.5.mp3'' = None
   \<and> length (generate_audio_for_link_steps
          (sample_env ''1700000060.25'' (Reply 200 [''second'']) False) 1
          (sample_state (Some ''link_voices/link_1_1700000000.5.mp3'')
            [''link_voices/link_1_1700000000.5.mp3'' \<mapsto> ''first''])) = 3"
proof -
  let ?e1 = "sample_env ''1700000000.5'' (Reply 200 [''first'']) False"
  let ?e2 = "sample_env ''1700000060.25'' (Reply 200 [''second'']) False"
  let ?p1 = "''link_voices/link_1_1700000000.5.mp3''"
  let ?p2 = "''link_voices/link_1_1700000060.25.mp3''"
  let ?db1 = "sample_state (Some ?p1) [?p1 \<mapsto> ''first'']"
  have ts: "now_timestamp ?e1 \<noteq> now_timestamp ?e2" by simp
  have s1: "generate_audio_for_link ?e1 1 (sample_state None Map.empty) = (?db1, Inr ?p1)"
    by (simp add: generate_audio_for_link_def generate_voice_audio_def generate_audio_def
        delete_old_audio_def audio_filename_def show_int_def show_nat.simps
        Let_def truthy_def or_empty_def py_strip_def isspace_def)
  have r2: "snd (generate_audio_for_link ?e2 1 ?db1) = Inr ?p2"
    by (simp add: generate_audio_for_link_def generate_voice_audio_def generate_audio_def
        delete_old_audio_def audio_filename_def show_int_def show_nat.simps
        Let_def truthy_def or_empty_def py_strip_def isspace_def)
  have s2: "generate_audio_for_link ?e2 1 ?db1
              = (fst (generate_audio_for_link ?e2 1 ?db1), Inr ?p2)"
    by (simp only: prod_eq_iff fst_conv snd_conv r2 simp_thms)
  have u: "\<not> unlink_fails ?e2" by simp
  from synthesize_twice[OF s1 s2 ts] u
  have "files (fst (generate_audio_for_link ?e2 1 ?db1)) ?p2 \<noteq> None"
    and "files (fst (generate_audio_for_link ?e2 1 ?db1)) ?p1 = None"
    and "length (generate_audio_for_link_steps ?e2 1 ?db1) = 3"
    by auto
  with ts s1 r2 show ?thesis by blast
qed

text \<open>
  C7 as stated fails on three counts. When unlinking the first file raises in the second
  call, the error is logged and the call succeeds with the first file still in the
  store. In the states of that call before the commit the link still references the
  first path: the reference is never cleared. And when the second call obtains the
  timestamp of the first, it overwrites the file and then unlinks it as the old one, so
  the link references a file that does not exist.
\<close>

theorem old_audio_kept_counterexample:
  "generate_audio_for_link (sample_env ''1700000000.5'' (Reply 200 [''first'']) False) 1
        (sample_state None Map.empty)
     = (sample_state (Some ''link_voices/link_1_1700000000.5.mp3'')
          [''link_voices/link_1_1700000000.5.mp3'' \<mapsto> ''first''],
        Inr ''link_voices/link_1_1700000000.5.mp3'')
   \<and> generate_audio_for_link (sample_env ''1700000060.25'' (Reply 200 [''second'']) True) 1
        (sample_state (Some ''link_voices/link_1_1700000000.5.mp3'')
          [''link_voices/link_1_1700000000.5.mp3'' \<mapsto> ''first''])
     = (sample_state (Some ''link_voices/link_1_1700000060.25.mp3'')
          [''link_voices/link_1_1700000000.5.mp3'' \<mapsto> ''first'',
           ''link_voices/link_1_1700000060.25.mp3'' \<mapsto> ''second''],
        Inr ''link_voices/link_1_1700000060.25.mp3'')
   \<and> generate_audio_for_link_steps
        (sample_env ''1700000060.25'' (Reply 200 [''second'']) True) 1
        (sample_state (Some ''link_voices/link_1_1700000000.5.mp3'')
          [''link_voices/link_1_1700000000.5.mp3'' \<mapsto> ''first''])
     = [sample_state (Some ''link_voices/link_1_1700000000.5.mp3'')
          [''link_voices/link_1_1700000000.5.mp3'' \<mapsto> ''first'',
           ''link_voices/link_1_1700000060.25.mp3'' \<mapsto> ''second''],
        sample_state (Some ''link_voices/link_1_1700000000.5.mp3'')
          [''link_voices/link_1_1700000000.5.mp3'' \<mapsto> ''first'',
           ''link_voices/link_1_1700000060.25.mp3'' \<mapsto> ''second''],
        sample_state (Some ''link_voices/link_1_1700000060.25.mp3'')
          [''link_voices/link_1_1700000000.5.mp3'' \<mapsto> ''first'',
           ''link_voices/link_1_1700000060.25.mp3'' \<mapsto> ''second'']]
   \<and> generate_audio_for_link (sample_env ''1700000000.5'' (Reply 200 [''second'']) False) 1
        (sample_state (Some ''link_voices/link_1_1700000000.5.mp3'')
          [''link_voices/link_1_1700000000.5.mp3'' \<mapsto> ''first''])
     = (sample_state (Some ''link_voices/link_1_1700000000.5.mp3'') Map.empty,
        Inr ''link_voices/link_1_1700000000.5.mp3'')"
  by (simp add: generate_audio_for_link_def generate_audio_for_link_steps_def
      generate_voice_audio_def generate_audio_def
      delete_old_audio_def audio_filename_def show_int_def show_nat.simps
      Let_def truthy_def or_empty_def py_strip_def isspace_def)

end
